theory Spec2Isabelle
  imports Main "HOL-Library.Char_ord" "HOL-Library.List_Lexorder" "HOL-Library.Multiset"
begin

section \<open>Data model of \<^verbatim>\<open>maldi_learn/driams.py\<close>\<close>

text \<open>
  The functions below carry the names of the Python functions they embed, without the
  leading underscore of the private ones (\<^verbatim>\<open>_load_metadata\<close> is \<open>load_metadata\<close>,
  \<^verbatim>\<open>_is_site_valid\<close> is \<open>is_site_valid\<close>, and so on). The file system, which the
  Python code reads through \<^verbatim>\<open>os\<close> and \<^verbatim>\<open>pandas\<close>, is an explicit argument.
\<close>

text \<open>
  A cell of a pandas data frame as the loader sees it: the missing marker
  (\<^verbatim>\<open>np.nan\<close>, what \<^verbatim>\<open>isna()\<close> tests), a raw string token, an integer (the
  codes an encoder writes, or a cell of an integer column), or a float other than the
  missing marker. The loader tests cells for being missing, compares them with strings
  and formats them, and computes nothing on them; so a float is known by the text that
  \<^verbatim>\<open>str()\<close> gives for it, such as \<^verbatim>\<open>101.0\<close> for a cell of a numeric column that pandas
  has read as \<^verbatim>\<open>float64\<close> because the column has missing entries.
\<close>

datatype cell = NaN | Str string | Num int | Flt string

text \<open>
  A data frame: the column labels in order, and the rows by position. A frame read by
  \<^verbatim>\<open>pd.read_csv\<close> has pairwise different labels (pandas renames repeated headers) and
  as many cells in every row as it has labels; a frame selected from it with a list of
  labels can repeat a label.
\<close>

record table =
  columns :: "string list"
  rows :: "cell list list"

definition table_ok :: "table \<Rightarrow> bool" where
  "table_ok t = (distinct (columns t) \<and> list_all (\<lambda>r. length r = length (columns t)) (rows t))"

text \<open>The exceptions of the Python code, as values.\<close>

datatype error =
    AssertionError
  | KeyError
  | AttributeError
  | IndexError
  | UndefinedVariableError
  | FileNotFoundError
  | NotADirectoryError
  | IsADirectoryError
  | ParserError

text \<open>\<^verbatim>\<open>_metadata_columns = ['code', 'bruker_organism_best_match', 'species']\<close>\<close>

definition metadata_columns :: "string list" where
  "metadata_columns = [''code'', ''bruker_organism_best_match'', ''species'']"

text \<open>A spectrum is opaque to the loader: the (mass, intensity) pairs of one file.\<close>

type_synonym spectrum = "(int \<times> int) list"

subsection \<open>\<^verbatim>\<open>class DRIAMSDataset\<close>\<close>

record DRIAMSDataset =
  X :: "spectrum list"
  y :: table

text \<open>
  \<^verbatim>\<open>__init__(self, X, y)\<close>: \<^verbatim>\<open>assert len(X) == y.shape[0]\<close>, then the two fields are
  stored. A failed \<^verbatim>\<open>assert\<close> raises \<^verbatim>\<open>AssertionError\<close>.
\<close>

definition DRIAMSDataset_init :: "spectrum list \<Rightarrow> table \<Rightarrow> error + DRIAMSDataset" where
  "DRIAMSDataset_init X0 y0 =
     (if length X0 = length (rows y0) then Inr \<lparr>X = X0, y = y0\<rparr> else Inl AssertionError)"

text \<open>
  Python values of different types, as far as \<^verbatim>\<open>is_multitask\<close> compares them: a list
  is never equal to an integer, so \<^verbatim>\<open>!=\<close> between the two is \<^verbatim>\<open>True\<close>.
\<close>

datatype pyval = PyList "string list" | PyInt int

fun py_ne :: "pyval \<Rightarrow> pyval \<Rightarrow> bool" where
  "py_ne (PyList a) (PyList b) = (a \<noteq> b)"
| "py_ne (PyInt a) (PyInt b) = (a \<noteq> b)"
| "py_ne _ _ = True"

text \<open>
  \<^verbatim>\<open>n_cols = [c for c in self.y.columns if c not in _metadata_columns]\<close>,
  \<^verbatim>\<open>return n_cols != 1\<close>: the list itself is compared with \<^verbatim>\<open>1\<close>.
\<close>

definition label_columns :: "DRIAMSDataset \<Rightarrow> string list" where
  "label_columns d = [c \<leftarrow> columns (y d). c \<notin> set metadata_columns]"

definition is_multitask :: "DRIAMSDataset \<Rightarrow> bool" where
  "is_multitask d = (let n_cols = label_columns d in py_ne (PyList n_cols) (PyInt 1))"

definition n_samples :: "DRIAMSDataset \<Rightarrow> nat" where
  "n_samples d = length (rows (y d))"


section \<open>Data frame operations the loader uses\<close>

text \<open>\<^verbatim>\<open>isna()\<close> on one cell.\<close>

definition isna :: "cell \<Rightarrow> bool" where
  "isna v = (v = NaN)"

text \<open>The cells of row \<open>r\<close> standing under the label \<open>k\<close>, in column order.\<close>

definition cells_at :: "string list \<Rightarrow> cell list \<Rightarrow> string \<Rightarrow> cell list" where
  "cells_at cs r k = map snd (filter (\<lambda>(c, v). c = k) (zip cs r))"

text \<open>
  \<^verbatim>\<open>df[keys]\<close> with a list of labels: \<^verbatim>\<open>KeyError\<close> when a label is not a column;
  otherwise, for each key in turn, every column carrying that label (one column when
  the labels of \<open>df\<close> are unique, all of them when a label is repeated in \<open>df\<close>).
\<close>

definition getitem_columns :: "table \<Rightarrow> string list \<Rightarrow> error + table" where
  "getitem_columns df keys =
     (if list_all (\<lambda>k. k \<in> set (columns df)) keys
      then Inr \<lparr>columns = concat (map (\<lambda>k. filter (\<lambda>c. c = k) (columns df)) keys),
                rows = map (\<lambda>r. concat (map (cells_at (columns df) r) keys)) (rows df)\<rparr>
      else Inl KeyError)"

text \<open>\<^verbatim>\<open>df.isna().sum(axis='columns')\<close>: the number of missing cells of each row.\<close>

definition isna_sum_columns :: "table \<Rightarrow> nat list" where
  "isna_sum_columns df = map (\<lambda>r. length (filter isna r)) (rows df)"

text \<open>\<^verbatim>\<open>df[mask]\<close> with a boolean mask, one entry per row.\<close>

definition getitem_mask :: "table \<Rightarrow> bool list \<Rightarrow> table" where
  "getitem_mask df keep = df\<lparr>rows := map fst (filter snd (zip (rows df) keep))\<rparr>"

text \<open>
  \<^verbatim>\<open>df.query('species == @species')\<close>: the rows whose \<^verbatim>\<open>species\<close> cell equals the
  requested string (a missing cell equals nothing); an error when the frame has no
  such column.
\<close>

definition query_species :: "table \<Rightarrow> string \<Rightarrow> error + table" where
  "query_species df species =
     (if ''species'' \<in> set (columns df)
      then Inr (df\<lparr>rows := filter (\<lambda>r. cells_at (columns df) r ''species'' = [Str species]) (rows df)\<rparr>)
      else Inl UndefinedVariableError)"

section \<open>The file system\<close>

text \<open>
  A file is known by what the two reads of the module make of it: the frame
  \<^verbatim>\<open>pd.read_csv(f, low_memory=False, na_values=['-'], keep_default_na=True)\<close> returns
  and the array \<^verbatim>\<open>pd.read_csv(f, sep=' ', comment='#', engine='c').values\<close> returns,
  \<open>None\<close> when the read raises. (The reads without \<^verbatim>\<open>na_values\<close> use the column
  labels only, which that option does not change.) A directory lists its entries by name.
  A path is the list of its components below the file system's top.
\<close>

datatype node = File "table option" "spectrum option" | Dir "(string \<times> node) list"

type_synonym path = "string list"

fun resolve :: "node \<Rightarrow> path \<Rightarrow> node option" where
  "resolve n [] = Some n"
| "resolve (File t s) (x # p) = None"
| "resolve (Dir es) (x # p) = (case map_of es x of None \<Rightarrow> None | Some c \<Rightarrow> resolve c p)"

definition os_path_exists :: "node \<Rightarrow> path \<Rightarrow> bool" where
  "os_path_exists fs p = (resolve fs p \<noteq> None)"

text \<open>
  Opening a path for reading: \<^verbatim>\<open>FileNotFoundError\<close> when a component is not an entry
  of its directory, \<^verbatim>\<open>NotADirectoryError\<close> when the path runs on through a regular file.
\<close>

fun open_node :: "node \<Rightarrow> path \<Rightarrow> error + node" where
  "open_node n [] = Inr n"
| "open_node (File t s) (x # p) = Inl NotADirectoryError"
| "open_node (Dir es) (x # p) =
     (case map_of es x of None \<Rightarrow> Inl FileNotFoundError | Some c \<Rightarrow> open_node c p)"

definition pd_read_csv :: "node \<Rightarrow> path \<Rightarrow> error + table" where
  "pd_read_csv fs p =
     (case open_node fs p of
        Inl e \<Rightarrow> Inl e
      | Inr (Dir es) \<Rightarrow> Inl IsADirectoryError
      | Inr (File None s) \<Rightarrow> Inl ParserError
      | Inr (File (Some t) s) \<Rightarrow> Inr t)"

definition read_spectrum :: "node \<Rightarrow> path \<Rightarrow> error + spectrum" where
  "read_spectrum fs p =
     (case open_node fs p of
        Inl e \<Rightarrow> Inl e
      | Inr (Dir es) \<Rightarrow> Inl IsADirectoryError
      | Inr (File t None) \<Rightarrow> Inl ParserError
      | Inr (File t (Some s)) \<Rightarrow> Inr s)"

definition dirnames :: "(string \<times> node) list \<Rightarrow> string list" where
  "dirnames es = map fst (filter (\<lambda>e. case snd e of Dir ds \<Rightarrow> True | File t s \<Rightarrow> False) es)"

definition filenames_of :: "(string \<times> node) list \<Rightarrow> string list" where
  "filenames_of es = map fst (filter (\<lambda>e. case snd e of Dir ds \<Rightarrow> False | File t s \<Rightarrow> True) es)"

text \<open>
  \<^verbatim>\<open>os.walk(top)\<close>, top-down: one triple (directory path, its subdirectories, its
  files) for \<open>top\<close> and then for every directory below it. With the default
  \<^verbatim>\<open>onerror=None\<close> a \<open>top\<close> that does not exist, or is a file, yields nothing and
  raises nothing.
\<close>

fun walk :: "path \<Rightarrow> node \<Rightarrow> (path \<times> string list \<times> string list) list" where
  "walk p (File t s) = []"
| "walk p (Dir es) =
     (p, dirnames es, filenames_of es) # concat (map (\<lambda>e. walk (p @ [fst e]) (snd e)) es)"

definition os_walk :: "node \<Rightarrow> path \<Rightarrow> (path \<times> string list \<times> string list) list" where
  "os_walk fs start = (case resolve fs start of None \<Rightarrow> [] | Some n \<Rightarrow> walk start n)"

section \<open>\<^verbatim>\<open>class DRIAMSDatasetExplorer\<close>\<close>

text \<open>
  The explorer holds the root path; \<^verbatim>\<open>os.path.join(self.root, site)\<close> appends the
  site name to it (a site, a year and a code are single path components).
\<close>

text \<open>
  \<^verbatim>\<open>_is_id_valid(id_file)\<close>: false when the file does not exist, when reading it
  raises (the bare \<^verbatim>\<open>except\<close>), or when the frame has no \<^verbatim>\<open>code\<close> column.
\<close>

definition is_id_valid :: "node \<Rightarrow> path \<Rightarrow> bool" where
  "is_id_valid fs id_file =
     (if \<not> os_path_exists fs id_file then False
      else (case pd_read_csv fs id_file of
              Inl e \<Rightarrow> False
            | Inr df \<Rightarrow> (if ''code'' \<notin> set (columns df) then False else True)))"

definition startswith_dot :: "string \<Rightarrow> bool" where
  "startswith_dot f = (case f of [] \<Rightarrow> False | c # cs \<Rightarrow> c = CHR ''.'')"

text \<open>
  \<^verbatim>\<open>_check_id_files(id_directory)\<close>: the walk adds up the subdirectories of every
  directory it visits and collects the path of every file whose name does not start
  with a dot; the two counts must agree and every collected file must be a valid
  identifier file.
\<close>

definition check_id_files :: "node \<Rightarrow> path \<Rightarrow> bool" where
  "check_id_files fs id_directory =
     (let visited = os_walk fs id_directory;
          n_dirs = sum_list (map (\<lambda>(root, dirs, files). length dirs) visited);
          filenames = concat (map (\<lambda>(root, dirs, files).
                        map (\<lambda>f. root @ [f]) (filter (\<lambda>f. \<not> startswith_dot f) files)) visited)
      in if n_dirs \<noteq> length filenames then False
         else (let valid = map (is_id_valid fs) filenames in False \<notin> set valid))"

text \<open>
  \<^verbatim>\<open>_is_site_valid(site)\<close>: the loop body runs for the first triple of the walk of
  the site directory only (it ends in \<^verbatim>\<open>break\<close>), and not at all when the walk
  yields nothing; the identifier files are checked after the loop in both cases.
\<close>

definition is_site_valid :: "node \<Rightarrow> path \<Rightarrow> string \<Rightarrow> bool" where
  "is_site_valid fs root site =
     (let path = root @ [site];
          after_loop = (if \<not> check_id_files fs (path @ [''id'']) then False else True)
      in case os_walk fs path of
           [] \<Rightarrow> after_loop
         | (r, dirs, files) # rest \<Rightarrow>
             (if ''id'' \<notin> set dirs then False
              else if ''preprocessed'' \<notin> set dirs \<and> ''raw'' \<notin> set dirs then False
              else after_loop))"

text \<open>
  A label is the UTF-8 text of the Python string, so its first character \<^verbatim>\<open>c[0]\<close> is
  the one, two, three or four bytes that the first byte announces. Which characters
  \<^verbatim>\<open>str.isupper()\<close> accepts is a table of the Python library (the upper-case letters
  of every alphabet, not only \<^verbatim>\<open>A\<close> to \<^verbatim>\<open>Z\<close>); the functions below take it as the
  argument \<open>isupper\<close>, a predicate on one character.
\<close>

definition utf8_width :: "char \<Rightarrow> nat" where
  "utf8_width b =
     (if (of_char b :: nat) < 128 then 1
      else if (of_char b :: nat) < 224 then 2
      else if (of_char b :: nat) < 240 then 3
      else 4)"

definition first_char :: "string \<Rightarrow> string" where
  "first_char c = take (utf8_width (hd c)) c"

text \<open>
  \<^verbatim>\<open>[c for c in df.columns if c[0].isupper()]\<close>: \<^verbatim>\<open>c[0]\<close> raises \<^verbatim>\<open>IndexError\<close>
  on an empty label.
\<close>

fun upper_columns :: "(string \<Rightarrow> bool) \<Rightarrow> string list \<Rightarrow> error + string list" where
  "upper_columns isupper [] = Inr []"
| "upper_columns isupper (c # cs) =
     (case c of
        [] \<Rightarrow> Inl IndexError
      | h # t \<Rightarrow> (case upper_columns isupper cs of
                    Inl e \<Rightarrow> Inl e
                  | Inr r \<Rightarrow> Inr (if isupper (first_char c) then c # r else r)))"

text \<open>\<^verbatim>\<open>p in s\<close> on strings: \<open>p\<close> occurs in \<open>s\<close> as a contiguous piece.\<close>

fun contains :: "string \<Rightarrow> string \<Rightarrow> bool" where
  "contains p [] = (p = [])"
| "contains p (c # s) = (take (length p) (c # s) = p \<or> contains p s)"

text \<open>
  \<^verbatim>\<open>_get_available_antibiotics(site, year)\<close>: reads
  \<^verbatim>\<open>root/site/id/year/{year}_clean.csv\<close>, keeps the labels starting with an upper-case
  character, drops those containing \<^verbatim>\<open>Unnamed\<close>, and sorts (Python orders strings
  lexicographically by character code, which is the order of their UTF-8 bytes).
\<close>

definition get_available_antibiotics ::
  "(string \<Rightarrow> bool) \<Rightarrow> node \<Rightarrow> path \<Rightarrow> string \<Rightarrow> string \<Rightarrow> error + string list" where
  "get_available_antibiotics isupper fs root site year =
     (let path = root @ [site, ''id'', year, year @ ''_clean.csv''] in
      case pd_read_csv fs path of
        Inl e \<Rightarrow> Inl e
      | Inr df \<Rightarrow>
          (case upper_columns isupper (columns df) of
             Inl e \<Rightarrow> Inl e
           | Inr antibiotics \<Rightarrow> Inr (sort (filter (\<lambda>a. \<not> contains ''Unnamed'' a) antibiotics))))"

section \<open>\<^verbatim>\<open>_load_metadata\<close>\<close>

text \<open>The \<^verbatim>\<open>antibiotics\<close> argument is a single name or a list of names.\<close>

datatype antibiotics_arg = One string | Many "string list"

text \<open>\<^verbatim>\<open>if type(antibiotics) is not list: antibiotics = [antibiotics]\<close>\<close>

definition as_list :: "antibiotics_arg \<Rightarrow> string list" where
  "as_list antibiotics = (case antibiotics of One a \<Rightarrow> [a] | Many names \<Rightarrow> names)"

text \<open>
  The missing-value step (the \<^verbatim>\<open>if/elif/else\<close> ending the function), on the frame
  that enters it.
\<close>

definition handle_missing :: "string \<Rightarrow> string list \<Rightarrow> nat \<Rightarrow> table \<Rightarrow> error + table" where
  "handle_missing handle_missing_resistance_measurements antibiotics n_antibiotics metadata =
     (if handle_missing_resistance_measurements = ''remove_if_all_missing'' then
        (case getitem_columns metadata antibiotics of
           Inl e \<Rightarrow> Inl e
         | Inr sub \<Rightarrow>
             (let na_values = isna_sum_columns sub
              in Inr (getitem_mask metadata (map (\<lambda>n. n \<noteq> n_antibiotics) na_values))))
      else if handle_missing_resistance_measurements = ''remove_if_any_missing'' then
        (case getitem_columns metadata antibiotics of
           Inl e \<Rightarrow> Inl e
         | Inr sub \<Rightarrow>
             (let na_values = isna_sum_columns sub
              in Inr (getitem_mask metadata (map (\<lambda>n. n = 0) na_values))))
      else Inr metadata)"

text \<open>
  The steps before it: normalising the argument, the assertion on the policy name, the
  read, the species query, the projection to the descriptive and the requested columns,
  and the encoder when there is one. The result is the frame entering the
  missing-value step, with the list of requested names.
\<close>

definition before_missing ::
  "node \<Rightarrow> path \<Rightarrow> string \<Rightarrow> antibiotics_arg \<Rightarrow> (table \<Rightarrow> error + table) option \<Rightarrow> string
     \<Rightarrow> error + (string list \<times> table)" where
  "before_missing fs filename species antibiotics_in encoder handle_missing_resistance_measurements =
     (let antibiotics = as_list antibiotics_in in
      if handle_missing_resistance_measurements \<notin>
           set [''remove_if_all_missing'', ''remove_if_any_missing'', ''keep'']
      then Inl AssertionError
      else (case pd_read_csv fs filename of
              Inl e \<Rightarrow> Inl e
            | Inr metadata0 \<Rightarrow>
                (case query_species metadata0 species of
                   Inl e \<Rightarrow> Inl e
                 | Inr metadata1 \<Rightarrow>
                     (case getitem_columns metadata1 (metadata_columns @ antibiotics) of
                        Inl e \<Rightarrow> Inl e
                      | Inr metadata2 \<Rightarrow>
                          (case encoder of
                             None \<Rightarrow> Inr (antibiotics, metadata2)
                           | Some fit_transform \<Rightarrow>
                               (case fit_transform metadata2 of
                                  Inl e \<Rightarrow> Inl e
                                | Inr metadata3 \<Rightarrow> Inr (antibiotics, metadata3)))))))"

definition load_metadata ::
  "node \<Rightarrow> path \<Rightarrow> string \<Rightarrow> antibiotics_arg \<Rightarrow> (table \<Rightarrow> error + table) option \<Rightarrow> string
     \<Rightarrow> error + table" where
  "load_metadata fs filename species antibiotics_in encoder handle_missing_resistance_measurements =
     (case before_missing fs filename species antibiotics_in encoder
             handle_missing_resistance_measurements of
        Inl e \<Rightarrow> Inl e
      | Inr (antibiotics, metadata) \<Rightarrow>
          handle_missing handle_missing_resistance_measurements antibiotics
            (length antibiotics) metadata)"

section \<open>\<^verbatim>\<open>class DRIAMSLabelEncoder\<close>\<close>

text \<open>The \<^verbatim>\<open>encodings\<close> dictionary of \<^verbatim>\<open>DRIAMSLabelEncoder.__init__\<close>.\<close>

definition encodings :: "(string \<times> cell) list" where
  "encodings =
     [(''R'', Num 1),
      (''I'', Num 1),
      (''S'', Num 0),
      (''R(1)'', NaN),
      (''L(1)'', NaN),
      (''I(1)'', NaN),
      (''I(1), S(1)'', NaN),
      (''R(1), I(1)'', NaN),
      (''R(1), S(1)'', NaN),
      (''R(1), I(1), S(1)'', NaN)]"

text \<open>
  Modelled from the spec: the generic \<^verbatim>\<open>LabelEncoder\<close> of
  \<^verbatim>\<open>maldi_learn/preprocessing/generic.py\<close>, whose \<^verbatim>\<open>fit_transform\<close> the DRIAMS
  encoder inherits, is not among the sources. By the spec (section 4.4) the encoder is a
  fixed mapping of raw values: a value that is a key of the mapping is replaced by what
  the mapping gives, a value outside the vocabulary passes through unchanged, nothing
  raises, and the columns it is told to ignore are passed through unmodified.
\<close>

definition replace_value :: "(string \<times> cell) list \<Rightarrow> cell \<Rightarrow> cell" where
  "replace_value enc v =
     (case v of
        Str s \<Rightarrow> (case map_of enc s of None \<Rightarrow> v | Some w \<Rightarrow> w)
      | NaN \<Rightarrow> v
      | Num n \<Rightarrow> v
      | Flt f \<Rightarrow> v)"

fun encode_row :: "(string \<times> cell) list \<Rightarrow> string list \<Rightarrow> string list \<Rightarrow> cell list \<Rightarrow> cell list" where
  "encode_row enc ignore_columns (c # cs) (v # vs) =
     (if c \<in> set ignore_columns then v else replace_value enc v)
       # encode_row enc ignore_columns cs vs"
| "encode_row enc ignore_columns cs vs = vs"

definition LabelEncoder_fit_transform ::
  "(string \<times> cell) list \<Rightarrow> string list \<Rightarrow> table \<Rightarrow> error + table" where
  "LabelEncoder_fit_transform enc ignore_columns df =
     Inr (df\<lparr>rows := map (encode_row enc ignore_columns (columns df)) (rows df)\<rparr>)"

text \<open>\<^verbatim>\<open>super().__init__(encodings, _metadata_columns)\<close>\<close>

definition DRIAMSLabelEncoder :: "table \<Rightarrow> error + table" where
  "DRIAMSLabelEncoder = LabelEncoder_fit_transform encodings metadata_columns"

section \<open>\<^verbatim>\<open>load_driams_dataset\<close>\<close>

text \<open>
  \<^verbatim>\<open>str\<close> of a non-negative integer, and of a cell as an f-string formats it (a float
  carries its text).
\<close>

function digits :: "nat \<Rightarrow> string" where
  "digits n = (if n < 10 then [char_of (48 + n)] else digits (n div 10) @ [char_of (48 + n mod 10)])"
  by pat_completeness auto
termination
  by (relation "measure id") auto

definition format_cell :: "cell \<Rightarrow> string" where
  "format_cell v =
     (case v of
        Str s \<Rightarrow> s
      | NaN \<Rightarrow> ''nan''
      | Num n \<Rightarrow> (if n < 0 then CHR ''-'' # digits (nat (- n)) else digits (nat n))
      | Flt f \<Rightarrow> f)"

text \<open>
  \<^verbatim>\<open>metadata.code\<close>, iterated: the cells of the \<^verbatim>\<open>code\<close> column in row order when one
  column has that label; \<^verbatim>\<open>AttributeError\<close> when none has; and when several have, the
  attribute is a frame, whose iteration gives its column labels.
\<close>

definition attr_code :: "table \<Rightarrow> error + string list" where
  "attr_code metadata =
     (case filter (\<lambda>c. c = ''code'') (columns metadata) of
        [] \<Rightarrow> Inl AttributeError
      | [c] \<Rightarrow> Inr (concat (map (\<lambda>r. map format_cell (cells_at (columns metadata) r ''code''))
                        (rows metadata)))
      | c # c' # cs \<Rightarrow> Inr (c # c' # cs))"

text \<open>
  The list comprehension reading the spectra: in order, and the first read that raises
  ends the call with its exception.
\<close>

fun read_spectra :: "node \<Rightarrow> path list \<Rightarrow> error + spectrum list" where
  "read_spectra fs [] = Inr []"
| "read_spectra fs (f # files) =
     (case read_spectrum fs f of
        Inl e \<Rightarrow> Inl e
      | Inr s \<Rightarrow> (case read_spectra fs files of
                    Inl e \<Rightarrow> Inl e
                  | Inr ss \<Rightarrow> Inr (s # ss)))"

text \<open>
  What a call can return: the function ends in \<^verbatim>\<open>return spectra, metadata\<close>, a
  tuple; a \<^verbatim>\<open>DRIAMSDataset\<close> instance is the other kind of value in question.
\<close>

datatype loaded = PyTuple "spectrum list" table | DatasetInstance DRIAMSDataset

definition load_driams_dataset ::
  "node \<Rightarrow> path \<Rightarrow> string \<Rightarrow> string \<Rightarrow> string \<Rightarrow> antibiotics_arg \<Rightarrow> (table \<Rightarrow> error + table) option
     \<Rightarrow> string \<Rightarrow> bool \<Rightarrow> error + loaded" where
  "load_driams_dataset fs root site year species antibiotics encoder
       handle_missing_resistance_measurements load_raw =
     (let spectra_type = (if load_raw then ''raw'' else ''preprocessed'');
          path_X = root @ [site, spectra_type, year];
          id_file = root @ [site, ''id'', year, year @ ''_clean.csv'']
      in case load_metadata fs id_file species antibiotics encoder
                handle_missing_resistance_measurements of
           Inl e \<Rightarrow> Inl e
         | Inr metadata \<Rightarrow>
             (case attr_code metadata of
                Inl e \<Rightarrow> Inl e
              | Inr codes \<Rightarrow>
                  (let spectra_files = map (\<lambda>code. path_X @ [code @ ''.txt'']) codes
                   in case read_spectra fs spectra_files of
                        Inl e \<Rightarrow> Inl e
                      | Inr spectra \<Rightarrow> Inr (PyTuple spectra metadata))))"

section \<open>Properties of rows and encoders that the statements below speak of\<close>

text \<open>
  Row \<open>r\<close> of a frame with labels \<open>cs\<close> has at least one non-missing value among the
  columns named in \<open>A\<close>; and it has no missing value among them.
\<close>

definition has_value :: "string list \<Rightarrow> cell list \<Rightarrow> string list \<Rightarrow> bool" where
  "has_value cs r A = list_ex (\<lambda>k. list_ex (\<lambda>v. \<not> isna v) (cells_at cs r k)) A"

definition no_missing :: "string list \<Rightarrow> cell list \<Rightarrow> string list \<Rightarrow> bool" where
  "no_missing cs r A = list_all (\<lambda>k. list_all (\<lambda>v. \<not> isna v) (cells_at cs r k)) A"

text \<open>
  The number the loader compares: the missing cells of row \<open>r\<close> in the frame
  \<^verbatim>\<open>metadata[antibiotics]\<close>.
\<close>

definition na_count :: "string list \<Rightarrow> string list \<Rightarrow> cell list \<Rightarrow> nat" where
  "na_count cs A r = length (filter isna (concat (map (cells_at cs r) A)))"

text \<open>
  Every value of row \<open>r\<close> under the columns named in \<open>A\<close> is one that the DRIAMS
  encoding turns into the missing marker (an ambiguous token, or a cell already
  missing).
\<close>

definition all_encode_to_missing :: "string list \<Rightarrow> cell list \<Rightarrow> string list \<Rightarrow> bool" where
  "all_encode_to_missing cs r A =
     list_all (\<lambda>k. list_all (\<lambda>v. isna (replace_value encodings v)) (cells_at cs r k)) A"

text \<open>
  An encoder that only rewrites cells: whenever it returns a frame, the labels and the
  length of every row are those of its argument.
\<close>

definition keeps_shape :: "(table \<Rightarrow> error + table) \<Rightarrow> bool" where
  "keeps_shape f =
     (\<forall>m m'. f m = Inr m' \<longrightarrow> columns m' = columns m \<and> map length (rows m') = map length (rows m))"

section \<open>Example data\<close>

text \<open>
  A root holding the site \<^verbatim>\<open>DRIAMS-A\<close> with the identifier table of 2015 (the two
  rows of the scenario of the spec, a row without a measurement and a row of another
  species) and the preprocessed spectrum of the sample \<^verbatim>\<open>A1\<close>.
\<close>

definition example_table :: table where
  "example_table =
     \<lparr>columns = [''code'', ''bruker_organism_best_match'', ''species'', ''Cipro''],
      rows = [[Str ''A1'', Str ''MRSA'', Str ''Sa'', Str ''S''],
              [Str ''A2'', Str ''MRSA'', Str ''Sa'', Str ''R(1)''],
              [Str ''A3'', Str ''MRSA'', Str ''Sa'', NaN],
              [Str ''A4'', Str ''E. coli'', Str ''Ec'', Str ''R'']]\<rparr>"

definition example_fs :: node where
  "example_fs =
     Dir [(''DRIAMS-A'',
           Dir [(''id'', Dir [(''2015'', Dir [(''2015_clean.csv'', File (Some example_table) None)])]),
                (''preprocessed'', Dir [(''2015'', Dir [(''A1.txt'', File None (Some [(2000, 7), (2003, 9)]))])])])]"

definition example_id_file :: path where
  "example_id_file = [''DRIAMS-A'', ''id'', ''2015'', ''2015_clean.csv'']"

text \<open>
  A root whose site \<^verbatim>\<open>DRIAMS-A\<close> has, for 2015, an identifier table with the columns
  \<^verbatim>\<open>code, bruker_organism_best_match, species, Ciprofloxacin, Unnamed: 7\<close>, and for
  2016 one whose third label begins with the A with diaeresis.
\<close>

definition antibiotics_table :: table where
  "antibiotics_table =
     \<lparr>columns = [''code'', ''bruker_organism_best_match'', ''species'', ''Ciprofloxacin'',
                 ''Unnamed: 7''],
      rows = []\<rparr>"

definition umlaut_table :: table where
  "umlaut_table =
     \<lparr>columns = [''code'', ''species'', [CHR 0xC3, CHR 0x84] @ ''ther'', ''Cipro''], rows = []\<rparr>"

text \<open>
  What \<^verbatim>\<open>str.isupper()\<close> answers on the characters that begin the labels of the
  examples: true for \<^verbatim>\<open>A\<close> to \<^verbatim>\<open>Z\<close> and for the A with diaeresis (U+00C4, the bytes
  C3 84), false for the lower-case letters.
\<close>

definition isupper_examples :: "string \<Rightarrow> bool" where
  "isupper_examples ch =
     (ch \<in> set (map (\<lambda>c. [c]) ''ABCDEFGHIJKLMNOPQRSTUVWXYZ'') \<or> ch = [CHR 0xC3, CHR 0x84])"

definition antibiotics_fs :: node where
  "antibiotics_fs =
     Dir [(''DRIAMS-A'',
           Dir [(''id'', Dir [(''2015'', Dir [(''2015_clean.csv'', File (Some antibiotics_table) None)]),
                              (''2016'', Dir [(''2016_clean.csv'', File (Some umlaut_table) None)])])])]"


section \<open>Facts about the data frame operations\<close>

lemma mask_filter: "map fst (filter snd (zip xs (map p xs))) = filter p xs"
  by (induction xs) auto

lemma getitem_columns_Inr:
  "set keys \<subseteq> set (columns df) \<Longrightarrow>
   getitem_columns df keys =
     Inr \<lparr>columns = concat (map (\<lambda>k. filter (\<lambda>c. c = k) (columns df)) keys),
          rows = map (\<lambda>r. concat (map (cells_at (columns df) r) keys)) (rows df)\<rparr>"
  by (auto simp: getitem_columns_def list_all_iff)

lemma getitem_columns_Inl:
  "\<not> set keys \<subseteq> set (columns df) \<Longrightarrow> getitem_columns df keys = Inl KeyError"
  by (auto simp: getitem_columns_def list_all_iff)

lemma handle_missing_all:
  "set A \<subseteq> set (columns m) \<Longrightarrow>
   handle_missing ''remove_if_all_missing'' A n m =
     Inr (m\<lparr>rows := filter (\<lambda>r. na_count (columns m) A r \<noteq> n) (rows m)\<rparr>)"
  unfolding handle_missing_def
  by (simp add: getitem_columns_Inr isna_sum_columns_def getitem_mask_def na_count_def
      mask_filter comp_def)

lemma handle_missing_any:
  "set A \<subseteq> set (columns m) \<Longrightarrow>
   handle_missing ''remove_if_any_missing'' A n m =
     Inr (m\<lparr>rows := filter (\<lambda>r. na_count (columns m) A r = 0) (rows m)\<rparr>)"
  unfolding handle_missing_def
  by (simp add: getitem_columns_Inr isna_sum_columns_def getitem_mask_def na_count_def
      mask_filter comp_def)

lemma handle_missing_keep: "handle_missing ''keep'' A n m = Inr m"
  by (simp add: handle_missing_def)

lemma handle_missing_columns:
  "handle_missing pol A n m = Inr r \<Longrightarrow> columns r = columns m \<and> set (rows r) \<subseteq> set (rows m)"
  by (auto simp: handle_missing_def getitem_mask_def split: if_splits sum.splits dest!: set_zip_leftD)

lemma na_count_0_no_missing: "na_count cs A r = 0 \<longleftrightarrow> no_missing cs r A"
  by (auto simp: na_count_def no_missing_def list_all_iff filter_empty_conv)

lemma cells_at_single:
  "distinct cs \<Longrightarrow> k \<in> set cs \<Longrightarrow> length r = length cs \<Longrightarrow> length (cells_at cs r k) = 1"
proof (induction cs r rule: list_induct2')
  case (4 c cs v vs)
  show ?case
  proof (cases "c = k")
    case True
    with 4 have "k \<notin> set cs" by simp
    then have "filter (\<lambda>(c, v). c = k) (zip cs vs) = []"
      by (auto simp: filter_empty_conv dest: set_zip_leftD)
    with True show ?thesis by (simp add: cells_at_def)
  next
    case False
    with 4 show ?thesis by (simp add: cells_at_def)
  qed
qed (auto simp: cells_at_def)

lemma selection_length:
  "distinct cs \<Longrightarrow> set A \<subseteq> set cs \<Longrightarrow> length r = length cs \<Longrightarrow>
   length (concat (map (cells_at cs r) A)) = length A"
  by (induction A) (auto simp: cells_at_single)

lemma na_count_less_has_value:
  assumes "length (concat (map (cells_at cs r) A)) = length A"
  shows "na_count cs A r \<noteq> length A \<longleftrightarrow> has_value cs r A"
proof -
  let ?sel = "concat (map (cells_at cs r) A)"
  have "length (filter isna ?sel) \<noteq> length ?sel \<longleftrightarrow> (\<exists>v \<in> set ?sel. \<not> isna v)"
    by (metis filter_id_conv length_filter_le filter_True le_antisym length_filter_less not_less_iff_gr_or_eq)
  then show ?thesis
    using assms by (auto simp: na_count_def has_value_def list_ex_iff)
qed

lemma filter_eq_single: "distinct cs \<Longrightarrow> k \<in> set cs \<Longrightarrow> filter (\<lambda>c. c = k) cs = [k]"
  by (induction cs) (auto simp: filter_empty_conv)

lemma project_columns:
  "distinct cs \<Longrightarrow> set ks \<subseteq> set cs \<Longrightarrow> concat (map (\<lambda>k. filter (\<lambda>c. c = k) cs) ks) = ks"
  by (induction ks) (auto simp: filter_eq_single)

lemma remove_if_all_missing_shaped:
  assumes "distinct (columns m)" and "set A \<subseteq> set (columns m)"
    and "\<forall>r \<in> set (rows m). length r = length (columns m)"
  shows "handle_missing ''remove_if_all_missing'' A (length A) m =
           Inr (m\<lparr>rows := filter (\<lambda>row. has_value (columns m) row A) (rows m)\<rparr>)"
proof -
  have "filter (\<lambda>r. na_count (columns m) A r \<noteq> length A) (rows m)
        = filter (\<lambda>row. has_value (columns m) row A) (rows m)"
  proof (rule filter_cong [OF refl])
    fix row assume "row \<in> set (rows m)"
    with assms(3) have "length row = length (columns m)" by simp
    from selection_length [OF assms(1,2) this]
    show "(na_count (columns m) A row \<noteq> length A) = has_value (columns m) row A"
      by (rule na_count_less_has_value)
  qed
  then show ?thesis
    by (simp add: handle_missing_all [OF assms(2)])
qed

section \<open>Facts about the steps of the metadata loader\<close>

lemma policy_names:
  "''keep'' \<in> set [''remove_if_all_missing'', ''remove_if_any_missing'', ''keep'']"
  "''remove_if_all_missing'' \<in> set [''remove_if_all_missing'', ''remove_if_any_missing'', ''keep'']"
  "''remove_if_any_missing'' \<in> set [''remove_if_all_missing'', ''remove_if_any_missing'', ''keep'']"
  by simp_all

lemma before_missing_steps:
  assumes "pd_read_csv fs file = Inr t0" and "query_species t0 sp = Inr t1"
    and "getitem_columns t1 (metadata_columns @ as_list arg) = Inr p"
    and "pol \<in> set [''remove_if_all_missing'', ''remove_if_any_missing'', ''keep'']"
  shows "before_missing fs file sp arg enc pol =
           (case enc of
              None \<Rightarrow> Inr (as_list arg, p)
            | Some g \<Rightarrow> (case g p of Inl e \<Rightarrow> Inl e | Inr m \<Rightarrow> Inr (as_list arg, m)))"
  using assms unfolding before_missing_def Let_def
  by (simp split: option.splits sum.splits)

lemma before_missing_Inr:
  assumes "before_missing fs file sp arg enc pol = Inr (A, m)"
  shows "A = as_list arg \<and> pol \<in> set [''remove_if_all_missing'', ''remove_if_any_missing'', ''keep''] \<and>
         (\<exists>t0 t1 p. pd_read_csv fs file = Inr t0 \<and> query_species t0 sp = Inr t1 \<and>
            getitem_columns t1 (metadata_columns @ as_list arg) = Inr p \<and>
            (case enc of None \<Rightarrow> m = p | Some g \<Rightarrow> g p = Inr m))"
  using assms unfolding before_missing_def Let_def
  by (auto split: if_splits option.splits sum.splits)

lemma projection_shape:
  assumes "table_ok t0" and "query_species t0 sp = Inr t1" and "getitem_columns t1 ks = Inr p"
  shows "columns p = ks \<and> (\<forall>r \<in> set (rows p). length r = length ks)"
proof -
  from assms(2) have t1: "columns t1 = columns t0" "set (rows t1) \<subseteq> set (rows t0)"
    by (auto simp: query_species_def split: if_splits)
  from assms(1) have ok: "distinct (columns t0)" "\<forall>r \<in> set (rows t0). length r = length (columns t0)"
    by (auto simp: table_ok_def list_all_iff)
  from assms(3) have sub: "set ks \<subseteq> set (columns t1)"
    by (rule contrapos_pp) (simp add: getitem_columns_Inl)
  with assms(3) have p: "p = \<lparr>columns = concat (map (\<lambda>k. filter (\<lambda>c. c = k) (columns t1)) ks),
          rows = map (\<lambda>r. concat (map (cells_at (columns t1) r) ks)) (rows t1)\<rparr>"
    by (simp add: getitem_columns_Inr)
  have "columns p = ks"
    using sub ok(1) by (simp add: p t1 project_columns)
  moreover have "\<forall>r \<in> set (rows p). length r = length ks"
    using sub ok t1 by (auto simp: p selection_length)
  ultimately show ?thesis by simp
qed

lemma keeps_shape_rows:
  assumes "keeps_shape g" and "g p = Inr m" and "\<forall>r \<in> set (rows p). length r = n"
  shows "columns m = columns p \<and> (\<forall>r \<in> set (rows m). length r = n)"
proof -
  from assms(1,2) have c: "columns m = columns p" and l: "map length (rows m) = map length (rows p)"
    by (auto simp: keeps_shape_def)
  have "\<forall>r \<in> set (rows m). length r = n"
  proof
    fix r assume "r \<in> set (rows m)"
    then have "length r \<in> set (map length (rows m))" by simp
    then have "length r \<in> set (map length (rows p))" by (simp only: l)
    with assms(3) show "length r = n" by auto
  qed
  with c show ?thesis by simp
qed

section \<open>Facts about the label encoder\<close>

lemma length_encode_row: "length (encode_row enc ign cs r) = length r"
  by (induction enc ign cs r rule: encode_row.induct) auto

lemma cells_at_encode_row:
  "cells_at cs (encode_row enc ign cs r) k =
     (if k \<in> set ign then cells_at cs r k else map (replace_value enc) (cells_at cs r k))"
  by (induction enc ign cs r rule: encode_row.induct) (auto simp: cells_at_def)

lemma keeps_shape_LabelEncoder: "keeps_shape (LabelEncoder_fit_transform enc ign)"
  by (auto simp: keeps_shape_def LabelEncoder_fit_transform_def length_encode_row)

lemma keeps_shape_DRIAMS: "keeps_shape DRIAMSLabelEncoder"
  unfolding DRIAMSLabelEncoder_def by (rule keeps_shape_LabelEncoder)

lemma replace_value_outside:
  "v \<notin> Str ` set (map fst enc) \<Longrightarrow> replace_value enc v = v"
proof (cases v)
  case (Str s)
  assume "v \<notin> Str ` set (map fst enc)"
  with Str have "s \<notin> fst ` set enc" by auto
  then have "map_of enc s = None" by (simp add: map_of_eq_None_iff)
  with Str show ?thesis by (simp add: replace_value_def)
qed (simp_all add: replace_value_def)

lemma has_value_encode_row:
  assumes "set A \<inter> set ign = {}"
  shows "has_value cs (encode_row enc ign cs r) A
           \<longleftrightarrow> \<not> list_all (\<lambda>k. list_all (\<lambda>v. isna (replace_value enc v)) (cells_at cs r k)) A"
proof -
  have "\<forall>k \<in> set A. cells_at cs (encode_row enc ign cs r) k = map (replace_value enc) (cells_at cs r k)"
    using assms by (auto simp: cells_at_encode_row)
  then show ?thesis
    by (auto simp: has_value_def list_ex_iff list_all_iff)
qed

section \<open>The example, evaluated\<close>

lemmas frame_defs =
  load_metadata_def before_missing_def handle_missing_def pd_read_csv_def query_species_def
  getitem_columns_def cells_at_def metadata_columns_def as_list_def isna_sum_columns_def
  getitem_mask_def isna_def Let_def

lemmas encoder_defs =
  DRIAMSLabelEncoder_def LabelEncoder_fit_transform_def encodings_def replace_value_def

lemmas example_defs = example_fs_def example_id_file_def example_table_def

lemmas loader_defs =
  load_driams_dataset_def attr_code_def format_cell_def read_spectrum_def

lemma example_read: "pd_read_csv example_fs example_id_file = Inr example_table"
  by (simp add: pd_read_csv_def example_defs)

lemma example_table_ok: "table_ok example_table"
  by (simp add: table_ok_def example_table_def)

lemma example_encoded_all:
  "load_metadata example_fs example_id_file ''Sa'' (Many [''Cipro'']) (Some DRIAMSLabelEncoder)
     ''remove_if_all_missing'' =
   Inr \<lparr>columns = [''code'', ''bruker_organism_best_match'', ''species'', ''Cipro''],
        rows = [[Str ''A1'', Str ''MRSA'', Str ''Sa'', Num 0]]\<rparr>"
  by (simp add: frame_defs encoder_defs example_defs)

lemma example_raw_all:
  "load_metadata example_fs example_id_file ''Sa'' (Many [''Cipro'']) None
     ''remove_if_all_missing'' =
   Inr \<lparr>columns = [''code'', ''bruker_organism_best_match'', ''species'', ''Cipro''],
        rows = [[Str ''A1'', Str ''MRSA'', Str ''Sa'', Str ''S''],
                [Str ''A2'', Str ''MRSA'', Str ''Sa'', Str ''R(1)'']]\<rparr>"
  by (simp add: frame_defs example_defs)

lemma example_raw_keep:
  "load_metadata example_fs example_id_file ''Sa'' (Many [''Cipro'']) None ''keep'' =
   Inr \<lparr>columns = [''code'', ''bruker_organism_best_match'', ''species'', ''Cipro''],
        rows = [[Str ''A1'', Str ''MRSA'', Str ''Sa'', Str ''S''],
                [Str ''A2'', Str ''MRSA'', Str ''Sa'', Str ''R(1)''],
                [Str ''A3'', Str ''MRSA'', Str ''Sa'', NaN]]\<rparr>"
  by (simp add: frame_defs example_defs)

lemma example_encoded_any:
  "load_metadata example_fs example_id_file ''Sa'' (One ''Cipro'') (Some DRIAMSLabelEncoder)
     ''remove_if_any_missing'' =
   Inr \<lparr>columns = [''code'', ''bruker_organism_best_match'', ''species'', ''Cipro''],
        rows = [[Str ''A1'', Str ''MRSA'', Str ''Sa'', Num 0]]\<rparr>"
  by (simp add: frame_defs encoder_defs example_defs)

lemma example_encoded:
  "DRIAMSLabelEncoder
     \<lparr>columns = [''code'', ''bruker_organism_best_match'', ''species'', ''Cipro''],
      rows = [[Str ''A1'', Str ''MRSA'', Str ''Sa'', Str ''S''],
              [Str ''A2'', Str ''MRSA'', Str ''Sa'', Str ''R(1)''],
              [Str ''A3'', Str ''MRSA'', Str ''Sa'', NaN]]\<rparr> =
   Inr \<lparr>columns = [''code'', ''bruker_organism_best_match'', ''species'', ''Cipro''],
        rows = [[Str ''A1'', Str ''MRSA'', Str ''Sa'', Num 0],
                [Str ''A2'', Str ''MRSA'', Str ''Sa'', NaN],
                [Str ''A3'', Str ''MRSA'', Str ''Sa'', NaN]]\<rparr>"
  by (simp add: encoder_defs metadata_columns_def)

section \<open>The missing-value policy\<close>

text \<open>
  C1, as it holds of the code. Let the identifier file read as a frame with unique labels
  and full rows, and let \<^verbatim>\<open>_load_metadata\<close> return the frame \<open>r\<close>. Then the frame
  \<open>m\<close> entering the missing-value step exists, and: under \<^verbatim>\<open>remove_if_any_missing\<close>
  every row of \<open>r\<close> has no missing value among the requested columns; under
  \<^verbatim>\<open>keep\<close> no row is removed (\<open>r\<close> is \<open>m\<close>); under \<^verbatim>\<open>remove_if_all_missing\<close> every
  row of \<open>r\<close> has at least one non-missing value among the requested columns, provided the
  requested list names no column twice and no descriptive column, and the encoder, when
  there is one, keeps the labels and the shape of the frame.
\<close>

theorem load_metadata_policy:
  assumes "pd_read_csv fs filename = Inr t0" and "table_ok t0"
    and "load_metadata fs filename species antibiotics encoder policy = Inr r"
  shows "\<exists>m. before_missing fs filename species antibiotics encoder policy
                = Inr (as_list antibiotics, m) \<and>
           (policy = ''remove_if_any_missing'' \<longrightarrow>
              list_all (\<lambda>row. no_missing (columns r) row (as_list antibiotics)) (rows r)) \<and>
           (policy = ''keep'' \<longrightarrow> r = m) \<and>
           (policy = ''remove_if_all_missing'' \<and> distinct (as_list antibiotics) \<and>
            set (as_list antibiotics) \<inter> set metadata_columns = {} \<and>
            (case encoder of None \<Rightarrow> True | Some f \<Rightarrow> keeps_shape f) \<longrightarrow>
              list_all (\<lambda>row. has_value (columns r) row (as_list antibiotics)) (rows r))"
proof -
  let ?A = "as_list antibiotics"
  from assms(3) obtain A m where
    bm: "before_missing fs filename species antibiotics encoder policy = Inr (A, m)" and
    hm: "handle_missing policy A (length A) m = Inr r"
    by (auto simp: load_metadata_def split: sum.splits)
  from before_missing_Inr [OF bm] assms(1) obtain t1 p where
    A: "A = ?A" and
    pol: "policy \<in> set [''remove_if_all_missing'', ''remove_if_any_missing'', ''keep'']" and
    q: "query_species t0 species = Inr t1" and
    g: "getitem_columns t1 (metadata_columns @ ?A) = Inr p" and
    e: "case encoder of None \<Rightarrow> m = p | Some f \<Rightarrow> f p = Inr m"
    by auto
  have cols: "columns r = columns m"
    using handle_missing_columns [OF hm] by simp
  have any: "list_all (\<lambda>row. no_missing (columns r) row ?A) (rows r)"
    if "policy = ''remove_if_any_missing''"
  proof -
    have sub: "set ?A \<subseteq> set (columns m)"
    proof (rule ccontr)
      assume "\<not> set ?A \<subseteq> set (columns m)"
      then have "handle_missing policy A (length A) m = Inl KeyError"
        using that by (simp add: A handle_missing_def getitem_columns_Inl)
      with hm show False by simp
    qed
    from hm show ?thesis
      unfolding that A handle_missing_any [OF sub]
      by (auto simp: list_all_iff na_count_0_no_missing)
  qed
  have keep: "r = m" if "policy = ''keep''"
    using hm that by (simp add: handle_missing_keep)
  have all: "list_all (\<lambda>row. has_value (columns r) row ?A) (rows r)"
    if "policy = ''remove_if_all_missing''" and d: "distinct ?A"
      and dj: "set ?A \<inter> set metadata_columns = {}"
      and ks: "case encoder of None \<Rightarrow> True | Some f \<Rightarrow> keeps_shape f"
  proof -
    from projection_shape [OF assms(2) q g]
    have p: "columns p = metadata_columns @ ?A"
      "\<forall>r \<in> set (rows p). length r = length (metadata_columns @ ?A)" by auto
    have m: "columns m = metadata_columns @ ?A \<and>
             (\<forall>r \<in> set (rows m). length r = length (metadata_columns @ ?A))"
    proof (cases encoder)
      case None
      with e p show ?thesis by simp
    next
      case (Some f)
      with e ks have "keeps_shape f" "f p = Inr m" by auto
      from keeps_shape_rows [OF this p(2)] p(1) show ?thesis by simp
    qed
    have dist: "distinct (columns m)"
      using m d dj by (auto simp: metadata_columns_def)
    have sub: "set ?A \<subseteq> set (columns m)" using m by auto
    have "has_value (columns m) row ?A" if "row \<in> set (rows r)" for row
    proof -
      from hm that have row: "row \<in> set (rows m)" "na_count (columns m) ?A row \<noteq> length ?A"
        unfolding \<open>policy = ''remove_if_all_missing''\<close> A handle_missing_all [OF sub]
        by auto
      from row(1) m have "length row = length (columns m)" by simp
      from selection_length [OF dist sub this] row(2)
      show ?thesis by (simp add: na_count_less_has_value)
    qed
    then show ?thesis by (simp add: list_all_iff cols)
  qed
  show ?thesis
    using bm A any keep all by blast
qed

text \<open>
  The example under the three policies, with the DRIAMS encoder for the two that remove
  rows: of the three rows of the species, only \<^verbatim>\<open>A1\<close> keeps a value after encoding.
\<close>

theorem load_metadata_policy_witness:
  "pd_read_csv example_fs example_id_file = Inr example_table \<and> table_ok example_table \<and>
   keeps_shape DRIAMSLabelEncoder \<and>
   load_metadata example_fs example_id_file ''Sa'' (Many [''Cipro'']) (Some DRIAMSLabelEncoder)
     ''remove_if_all_missing'' =
     Inr \<lparr>columns = [''code'', ''bruker_organism_best_match'', ''species'', ''Cipro''],
          rows = [[Str ''A1'', Str ''MRSA'', Str ''Sa'', Num 0]]\<rparr> \<and>
   list_all (\<lambda>row. has_value [''code'', ''bruker_organism_best_match'', ''species'', ''Cipro''] row [''Cipro''])
     [[Str ''A1'', Str ''MRSA'', Str ''Sa'', Num 0]] \<and>
   load_metadata example_fs example_id_file ''Sa'' (One ''Cipro'') (Some DRIAMSLabelEncoder)
     ''remove_if_any_missing'' =
     Inr \<lparr>columns = [''code'', ''bruker_organism_best_match'', ''species'', ''Cipro''],
          rows = [[Str ''A1'', Str ''MRSA'', Str ''Sa'', Num 0]]\<rparr> \<and>
   list_all (\<lambda>row. no_missing [''code'', ''bruker_organism_best_match'', ''species'', ''Cipro''] row [''Cipro''])
     [[Str ''A1'', Str ''MRSA'', Str ''Sa'', Num 0]] \<and>
   before_missing example_fs example_id_file ''Sa'' (Many [''Cipro'']) None ''keep'' =
     Inr ([''Cipro''],
          \<lparr>columns = [''code'', ''bruker_organism_best_match'', ''species'', ''Cipro''],
           rows = [[Str ''A1'', Str ''MRSA'', Str ''Sa'', Str ''S''],
                   [Str ''A2'', Str ''MRSA'', Str ''Sa'', Str ''R(1)''],
                   [Str ''A3'', Str ''MRSA'', Str ''Sa'', NaN]]\<rparr>) \<and>
   load_metadata example_fs example_id_file ''Sa'' (Many [''Cipro'']) None ''keep'' =
     Inr \<lparr>columns = [''code'', ''bruker_organism_best_match'', ''species'', ''Cipro''],
          rows = [[Str ''A1'', Str ''MRSA'', Str ''Sa'', Str ''S''],
                  [Str ''A2'', Str ''MRSA'', Str ''Sa'', Str ''R(1)''],
                  [Str ''A3'', Str ''MRSA'', Str ''Sa'', NaN]]\<rparr>"
  using load_metadata_policy [OF example_read example_table_ok example_encoded_all]
    load_metadata_policy [OF example_read example_table_ok example_encoded_any]
    load_metadata_policy [OF example_read example_table_ok example_raw_keep]
    example_read example_table_ok keeps_shape_DRIAMS example_encoded_all example_encoded_any
    example_raw_keep
  by (simp add: as_list_def metadata_columns_def)

text \<open>
  C1 as stated fails for a requested list that repeats a name. The projection then holds
  the column twice, \<^verbatim>\<open>metadata[antibiotics]\<close> selects every column with a requested
  label once per request (four columns for two requests), and the count of missing cells
  of the row \<^verbatim>\<open>A3\<close> is 4, which differs from \<^verbatim>\<open>n_antibiotics = 2\<close>: the row is retained
  under \<^verbatim>\<open>remove_if_all_missing\<close> although every requested value of it is missing.
\<close>

theorem load_metadata_repeated_name:
  "load_metadata example_fs example_id_file ''Sa'' (Many [''Cipro'', ''Cipro'']) None
     ''remove_if_all_missing'' =
   Inr \<lparr>columns = [''code'', ''bruker_organism_best_match'', ''species'', ''Cipro'', ''Cipro''],
        rows = [[Str ''A1'', Str ''MRSA'', Str ''Sa'', Str ''S'', Str ''S''],
                [Str ''A2'', Str ''MRSA'', Str ''Sa'', Str ''R(1)'', Str ''R(1)''],
                [Str ''A3'', Str ''MRSA'', Str ''Sa'', NaN, NaN]]\<rparr> \<and>
   \<not> has_value [''code'', ''bruker_organism_best_match'', ''species'', ''Cipro'', ''Cipro'']
       [Str ''A3'', Str ''MRSA'', Str ''Sa'', NaN, NaN] [''Cipro'', ''Cipro'']"
  by (simp add: frame_defs example_defs has_value_def)

section \<open>The encoder runs before the missing-value step\<close>

text \<open>
  C2, as it holds of the code. When an encoder is supplied, \<^verbatim>\<open>remove_if_all_missing\<close> is
  decided on the encoded frame: with \<open>p\<close> the projected frame of raw tokens and \<open>m\<close>
  what the encoder makes of it, the loader returns the rows of \<open>m\<close> that have a
  non-missing value among the requested columns. So a row whose requested values the
  encoder has all turned into the missing marker is dropped, whatever its raw tokens
  were, provided the requested list names no column twice and no descriptive column and
  the encoder keeps the labels and the shape of the frame.
\<close>

theorem encoder_then_policy:
  assumes "pd_read_csv fs filename = Inr t0" and "table_ok t0"
    and "distinct (as_list antibiotics)"
    and "set (as_list antibiotics) \<inter> set metadata_columns = {}"
    and "keeps_shape fit_transform"
    and "load_metadata fs filename species antibiotics None ''keep'' = Inr p"
    and "fit_transform p = Inr m"
  shows "load_metadata fs filename species antibiotics (Some fit_transform)
           ''remove_if_all_missing'' =
         Inr (m\<lparr>rows := filter (\<lambda>row. has_value (columns m) row (as_list antibiotics)) (rows m)\<rparr>)"
proof -
  let ?A = "as_list antibiotics"
  from assms(6) have bm: "before_missing fs filename species antibiotics None ''keep'' = Inr (?A, p)"
    by (auto simp: load_metadata_def handle_missing_keep split: sum.splits dest: before_missing_Inr)
  from before_missing_Inr [OF bm] assms(1) obtain t1 where
    q: "query_species t0 species = Inr t1" and
    g: "getitem_columns t1 (metadata_columns @ ?A) = Inr p"
    by auto
  from projection_shape [OF assms(2) q g]
  have p: "columns p = metadata_columns @ ?A"
    "\<forall>r \<in> set (rows p). length r = length (metadata_columns @ ?A)" by auto
  from keeps_shape_rows [OF assms(5,7) p(2)] p(1)
  have m: "columns m = metadata_columns @ ?A"
    "\<forall>r \<in> set (rows m). length r = length (columns m)" by auto
  have "before_missing fs filename species antibiotics (Some fit_transform)
          ''remove_if_all_missing'' = Inr (?A, m)"
    by (simp add: before_missing_steps [OF assms(1) q g policy_names(2)] assms(7))
  then have lm: "load_metadata fs filename species antibiotics (Some fit_transform)
          ''remove_if_all_missing'' = handle_missing ''remove_if_all_missing'' ?A (length ?A) m"
    by (simp add: load_metadata_def)
  have sub: "set ?A \<subseteq> set (columns m)" using m(1) by auto
  have dist: "distinct (columns m)"
    using m(1) assms(3,4) by (auto simp: metadata_columns_def)
  show ?thesis
    unfolding lm by (rule remove_if_all_missing_shaped [OF dist sub m(2)])
qed

text \<open>
  The scenario of the spec: \<^verbatim>\<open>A1\<close> with \<^verbatim>\<open>S\<close> is retained with the value 0, \<^verbatim>\<open>A2\<close> with
  the token \<^verbatim>\<open>R(1)\<close> is dropped once the DRIAMS encoder has run, and is retained when no
  encoder is given.
\<close>

theorem encoder_then_policy_witness:
  "pd_read_csv example_fs example_id_file = Inr example_table \<and> table_ok example_table \<and>
   distinct (as_list (Many [''Cipro''])) \<and>
   set (as_list (Many [''Cipro''])) \<inter> set metadata_columns = {} \<and>
   keeps_shape DRIAMSLabelEncoder \<and>
   load_metadata example_fs example_id_file ''Sa'' (Many [''Cipro'']) None ''keep'' =
     Inr \<lparr>columns = [''code'', ''bruker_organism_best_match'', ''species'', ''Cipro''],
          rows = [[Str ''A1'', Str ''MRSA'', Str ''Sa'', Str ''S''],
                  [Str ''A2'', Str ''MRSA'', Str ''Sa'', Str ''R(1)''],
                  [Str ''A3'', Str ''MRSA'', Str ''Sa'', NaN]]\<rparr> \<and>
   DRIAMSLabelEncoder
     \<lparr>columns = [''code'', ''bruker_organism_best_match'', ''species'', ''Cipro''],
      rows = [[Str ''A1'', Str ''MRSA'', Str ''Sa'', Str ''S''],
              [Str ''A2'', Str ''MRSA'', Str ''Sa'', Str ''R(1)''],
              [Str ''A3'', Str ''MRSA'', Str ''Sa'', NaN]]\<rparr> =
     Inr \<lparr>columns = [''code'', ''bruker_organism_best_match'', ''species'', ''Cipro''],
          rows = [[Str ''A1'', Str ''MRSA'', Str ''Sa'', Num 0],
                  [Str ''A2'', Str ''MRSA'', Str ''Sa'', NaN],
                  [Str ''A3'', Str ''MRSA'', Str ''Sa'', NaN]]\<rparr> \<and>
   load_metadata example_fs example_id_file ''Sa'' (Many [''Cipro'']) (Some DRIAMSLabelEncoder)
     ''remove_if_all_missing'' =
     Inr \<lparr>columns = [''code'', ''bruker_organism_best_match'', ''species'', ''Cipro''],
          rows = [[Str ''A1'', Str ''MRSA'', Str ''Sa'', Num 0]]\<rparr> \<and>
   load_metadata example_fs example_id_file ''Sa'' (Many [''Cipro'']) None
     ''remove_if_all_missing'' =
     Inr \<lparr>columns = [''code'', ''bruker_organism_best_match'', ''species'', ''Cipro''],
          rows = [[Str ''A1'', Str ''MRSA'', Str ''Sa'', Str ''S''],
                  [Str ''A2'', Str ''MRSA'', Str ''Sa'', Str ''R(1)'']]\<rparr>"
proof -
  have d: "distinct (as_list (Many [''Cipro'']))"
    and j: "set (as_list (Many [''Cipro''])) \<inter> set metadata_columns = {}"
    by (simp_all add: as_list_def metadata_columns_def)
  have "load_metadata example_fs example_id_file ''Sa'' (Many [''Cipro'']) (Some DRIAMSLabelEncoder)
     ''remove_if_all_missing'' =
     Inr \<lparr>columns = [''code'', ''bruker_organism_best_match'', ''species'', ''Cipro''],
          rows = [[Str ''A1'', Str ''MRSA'', Str ''Sa'', Num 0]]\<rparr>"
    using encoder_then_policy [OF example_read example_table_ok d j keeps_shape_DRIAMS
        example_raw_keep example_encoded]
    by (simp add: has_value_def cells_at_def as_list_def isna_def)
  with example_read example_table_ok d j keeps_shape_DRIAMS example_raw_keep example_encoded
    example_raw_all
  show ?thesis by (simp only: simp_thms)
qed

text \<open>
  C2 as stated fails for a requested list that repeats a name, as C1 does. The row
  \<^verbatim>\<open>A2\<close> has the token \<^verbatim>\<open>R(1)\<close> as its only requested value, and the DRIAMS encoder
  turns it into the missing marker in both copies of the column; the frame
  \<^verbatim>\<open>metadata[antibiotics]\<close> then has four columns, the row counts 4 missing cells where
  \<^verbatim>\<open>n_antibiotics\<close> is 2, and it is retained under \<^verbatim>\<open>remove_if_all_missing\<close>.
\<close>

theorem encoder_repeated_name:
  "replace_value encodings (Str ''R(1)'') = NaN \<and>
   load_metadata example_fs example_id_file ''Sa'' (Many [''Cipro'', ''Cipro''])
     (Some DRIAMSLabelEncoder) ''remove_if_all_missing'' =
   Inr \<lparr>columns = [''code'', ''bruker_organism_best_match'', ''species'', ''Cipro'', ''Cipro''],
        rows = [[Str ''A1'', Str ''MRSA'', Str ''Sa'', Num 0, Num 0],
                [Str ''A2'', Str ''MRSA'', Str ''Sa'', NaN, NaN],
                [Str ''A3'', Str ''MRSA'', Str ''Sa'', NaN, NaN]]\<rparr> \<and>
   \<not> has_value [''code'', ''bruker_organism_best_match'', ''species'', ''Cipro'', ''Cipro'']
       [Str ''A2'', Str ''MRSA'', Str ''Sa'', NaN, NaN] [''Cipro'', ''Cipro'']"
  by (simp add: frame_defs encoder_defs example_defs has_value_def)

text \<open>
  For the DRIAMS encoder the dropped rows can be named on the raw frame: they are the rows
  all of whose requested values are ambiguous tokens or already missing.
\<close>

lemma DRIAMS_encoder_then_policy:
  assumes "pd_read_csv fs filename = Inr t0" and "table_ok t0"
    and "distinct (as_list antibiotics)"
    and "set (as_list antibiotics) \<inter> set metadata_columns = {}"
    and "load_metadata fs filename species antibiotics None ''keep'' = Inr p"
  shows "load_metadata fs filename species antibiotics (Some DRIAMSLabelEncoder)
           ''remove_if_all_missing'' =
         Inr (p\<lparr>rows := map (encode_row encodings metadata_columns (columns p))
                         (filter (\<lambda>row. \<not> all_encode_to_missing (columns p) row (as_list antibiotics))
                            (rows p))\<rparr>)"
proof -
  let ?A = "as_list antibiotics"
  let ?enc = "encode_row encodings metadata_columns (columns p)"
  from assms(5) have bm: "before_missing fs filename species antibiotics None ''keep'' = Inr (?A, p)"
    by (auto simp: load_metadata_def handle_missing_keep split: sum.splits dest: before_missing_Inr)
  from before_missing_Inr [OF bm] assms(1) obtain t1 where
    q: "query_species t0 species = Inr t1" and
    g: "getitem_columns t1 (metadata_columns @ ?A) = Inr p"
    by auto
  from projection_shape [OF assms(2) q g]
  have p: "columns p = metadata_columns @ ?A"
    "\<forall>r \<in> set (rows p). length r = length (metadata_columns @ ?A)" by auto
  let ?m = "p\<lparr>rows := map ?enc (rows p)\<rparr>"
  have "before_missing fs filename species antibiotics (Some DRIAMSLabelEncoder)
          ''remove_if_all_missing'' = Inr (?A, ?m)"
    by (simp add: before_missing_steps [OF assms(1) q g policy_names(2)]
        DRIAMSLabelEncoder_def LabelEncoder_fit_transform_def)
  then have lm: "load_metadata fs filename species antibiotics (Some DRIAMSLabelEncoder)
          ''remove_if_all_missing'' = handle_missing ''remove_if_all_missing'' ?A (length ?A) ?m"
    by (simp add: load_metadata_def)
  have sub: "set ?A \<subseteq> set (columns ?m)" using p(1) by auto
  have dist: "distinct (columns p)"
    using p(1) assms(3,4) by (auto simp: metadata_columns_def)
  have keepiff: "(na_count (columns p) ?A (?enc row) \<noteq> length ?A)
                   = (\<not> all_encode_to_missing (columns p) row ?A)"
    if "row \<in> set (rows p)" for row
  proof -
    from that p have "length (?enc row) = length (columns p)"
      by (simp add: length_encode_row)
    from selection_length [OF dist _ this] p(1)
    have "length (concat (map (cells_at (columns p) (?enc row)) ?A)) = length ?A" by auto
    then show ?thesis
      by (simp add: na_count_less_has_value has_value_encode_row [OF assms(4)]
          all_encode_to_missing_def)
  qed
  have "filter (\<lambda>r. na_count (columns p) ?A r \<noteq> length ?A) (map ?enc (rows p))
        = map ?enc (filter (\<lambda>row. \<not> all_encode_to_missing (columns p) row ?A) (rows p))"
    unfolding filter_map comp_def
    by (rule arg_cong [where f = "map ?enc"], rule filter_cong [OF refl]) (rule keepiff)
  then show ?thesis
    unfolding lm handle_missing_all [OF sub] by simp
qed

section \<open>The DRIAMS label encoding\<close>

text \<open>
  C3. The encoding maps \<^verbatim>\<open>R\<close> and \<^verbatim>\<open>I\<close> to 1 and \<^verbatim>\<open>S\<close> to 0; each of the seven
  ambiguous or low-confidence tokens to the missing marker; every value outside the
  vocabulary to itself. Applied to a frame it never raises, keeps the labels and the shape,
  leaves the cells of \<^verbatim>\<open>code\<close>, \<^verbatim>\<open>bruker_organism_best_match\<close> and \<^verbatim>\<open>species\<close> as they
  are, and replaces the cells of every other column by their encodings.
\<close>

theorem DRIAMSLabelEncoder_mapping:
  "replace_value encodings (Str ''R'') = Num 1 \<and>
   replace_value encodings (Str ''I'') = Num 1 \<and>
   replace_value encodings (Str ''S'') = Num 0 \<and>
   replace_value encodings (Str ''R(1)'') = NaN \<and>
   replace_value encodings (Str ''L(1)'') = NaN \<and>
   replace_value encodings (Str ''I(1)'') = NaN \<and>
   replace_value encodings (Str ''I(1), S(1)'') = NaN \<and>
   replace_value encodings (Str ''R(1), I(1)'') = NaN \<and>
   replace_value encodings (Str ''R(1), S(1)'') = NaN \<and>
   replace_value encodings (Str ''R(1), I(1), S(1)'') = NaN \<and>
   (v \<notin> Str ` {''R'', ''I'', ''S'', ''R(1)'', ''L(1)'', ''I(1)'', ''I(1), S(1)'', ''R(1), I(1)'',
               ''R(1), S(1)'', ''R(1), I(1), S(1)''} \<longrightarrow> replace_value encodings v = v) \<and>
   (\<exists>df'. DRIAMSLabelEncoder df = Inr df' \<and> columns df' = columns df \<and>
      map length (rows df') = map length (rows df) \<and>
      (\<forall>i < length (rows df). \<forall>k.
         cells_at (columns df) (rows df' ! i) k =
           (if k \<in> {''code'', ''bruker_organism_best_match'', ''species''}
            then cells_at (columns df) (rows df ! i) k
            else map (replace_value encodings) (cells_at (columns df) (rows df ! i) k))))"
proof -
  have tokens: "replace_value encodings (Str ''R'') = Num 1"
    "replace_value encodings (Str ''I'') = Num 1"
    "replace_value encodings (Str ''S'') = Num 0"
    "replace_value encodings (Str ''R(1)'') = NaN"
    "replace_value encodings (Str ''L(1)'') = NaN"
    "replace_value encodings (Str ''I(1)'') = NaN"
    "replace_value encodings (Str ''I(1), S(1)'') = NaN"
    "replace_value encodings (Str ''R(1), I(1)'') = NaN"
    "replace_value encodings (Str ''R(1), S(1)'') = NaN"
    "replace_value encodings (Str ''R(1), I(1), S(1)'') = NaN"
    by (simp_all add: replace_value_def encodings_def)
  have outside: "replace_value encodings v = v"
    if "v \<notin> Str ` {''R'', ''I'', ''S'', ''R(1)'', ''L(1)'', ''I(1)'', ''I(1), S(1)'', ''R(1), I(1)'',
               ''R(1), S(1)'', ''R(1), I(1), S(1)''}"
  proof (rule replace_value_outside)
    have "set (map fst encodings) = {''R'', ''I'', ''S'', ''R(1)'', ''L(1)'', ''I(1)'', ''I(1), S(1)'', ''R(1), I(1)'',
               ''R(1), S(1)'', ''R(1), I(1), S(1)''}"
      by (simp add: encodings_def)
    with that show "v \<notin> Str ` set (map fst encodings)" by simp
  qed
  let ?df' = "df\<lparr>rows := map (encode_row encodings metadata_columns (columns df)) (rows df)\<rparr>"
  have enc: "DRIAMSLabelEncoder df = Inr ?df'"
    by (simp add: DRIAMSLabelEncoder_def LabelEncoder_fit_transform_def)
  have shape: "columns ?df' = columns df" "map length (rows ?df') = map length (rows df)"
    by (simp_all add: length_encode_row comp_def)
  have cells: "\<forall>i < length (rows df). \<forall>k.
         cells_at (columns df) (rows ?df' ! i) k =
           (if k \<in> {''code'', ''bruker_organism_best_match'', ''species''}
            then cells_at (columns df) (rows df ! i) k
            else map (replace_value encodings) (cells_at (columns df) (rows df ! i) k))"
    by (simp add: cells_at_encode_row metadata_columns_def)
  show ?thesis
    using tokens outside enc shape cells by blast
qed

text \<open>
  A token outside the vocabulary passes through, and the example table encoded: the
  last column holds the codes, the descriptive columns are untouched.
\<close>

theorem DRIAMSLabelEncoder_mapping_witness:
  "Str ''positive'' \<notin> Str ` {''R'', ''I'', ''S'', ''R(1)'', ''L(1)'', ''I(1)'', ''I(1), S(1)'',
       ''R(1), I(1)'', ''R(1), S(1)'', ''R(1), I(1), S(1)''} \<and>
   replace_value encodings (Str ''positive'') = Str ''positive'' \<and>
   DRIAMSLabelEncoder example_table =
     Inr \<lparr>columns = [''code'', ''bruker_organism_best_match'', ''species'', ''Cipro''],
          rows = [[Str ''A1'', Str ''MRSA'', Str ''Sa'', Num 0],
                  [Str ''A2'', Str ''MRSA'', Str ''Sa'', NaN],
                  [Str ''A3'', Str ''MRSA'', Str ''Sa'', NaN],
                  [Str ''A4'', Str ''E. coli'', Str ''Ec'', Num 1]]\<rparr>"
  using DRIAMSLabelEncoder_mapping [of "Str ''positive''" example_table]
  by (simp add: encoder_defs example_table_def metadata_columns_def)

section \<open>Validity of a site\<close>

lemma resolve_append_None:
  "\<forall>es. resolve n p \<noteq> Some (Dir es) \<Longrightarrow> resolve n (p @ x # q) = None"
proof (induction n p rule: resolve.induct)
  case (1 n)
  then show ?case by (cases n) auto
next
  case (2 t s x p)
  then show ?case by simp
next
  case (3 es x p)
  then show ?case by (auto split: option.splits)
qed

lemma os_walk_no_dir:
  assumes "\<forall>es. resolve fs p \<noteq> Some (Dir es)"
  shows "os_walk fs p = []"
proof (cases "resolve fs p")
  case None
  then show ?thesis by (simp add: os_walk_def)
next
  case (Some n)
  with assms show ?thesis by (cases n) (auto simp: os_walk_def)
qed

lemma check_id_files_no_walk:
  "os_walk fs p = [] \<Longrightarrow> check_id_files fs p"
  by (simp add: check_id_files_def)

text \<open>
  C4. The claim is that the check is false whenever the \<^verbatim>\<open>id\<close> subdirectory is absent.
  For the site name \<^verbatim>\<open>DRIAMS-B\<close>, which has no directory under the example root (so it
  has no \<^verbatim>\<open>id\<close>, no \<^verbatim>\<open>raw\<close> and no \<^verbatim>\<open>preprocessed\<close> either), the code returns true.
\<close>

theorem is_site_valid_absent_id:
  "resolve example_fs ([] @ [''DRIAMS-B'']) = None \<and>
   resolve example_fs (([] @ [''DRIAMS-B'']) @ [''id'']) = None \<and>
   resolve example_fs (([] @ [''DRIAMS-B'']) @ [''raw'']) = None \<and>
   resolve example_fs (([] @ [''DRIAMS-B'']) @ [''preprocessed'']) = None \<and>
   is_site_valid example_fs [] ''DRIAMS-B'' = True"
  by (simp add: is_site_valid_def os_walk_def check_id_files_def example_fs_def)

text \<open>
  C10. For every site name that is not a directory under the root, the walk of the site
  path yields nothing, so the loop body with the layout checks never runs; the walk of
  its \<^verbatim>\<open>id\<close> path yields nothing either, so zero directories are compared with zero
  files; and the check returns true.
\<close>

theorem is_site_valid_missing_site:
  assumes "\<forall>es. resolve fs (root @ [site]) \<noteq> Some (Dir es)"
  shows "os_walk fs (root @ [site]) = [] \<and>
         os_walk fs ((root @ [site]) @ [''id'']) = [] \<and>
         is_site_valid fs root site = True"
proof -
  have w: "os_walk fs (root @ [site]) = []"
    using assms by (rule os_walk_no_dir)
  have "resolve fs ((root @ [site]) @ [''id'']) = None"
    using assms by (rule resolve_append_None)
  then have i: "os_walk fs ((root @ [site]) @ [''id'']) = []"
    by (simp add: os_walk_def)
  then have "check_id_files fs ((root @ [site]) @ [''id''])"
    by (rule check_id_files_no_walk)
  with w i show ?thesis
    by (simp add: is_site_valid_def)
qed

theorem is_site_valid_missing_site_witness:
  "(\<forall>es. resolve (Dir [(''DRIAMS-A'', Dir [(''id'', Dir []), (''raw'', Dir [])])])
           ([] @ [''DRIAMS-Z'']) \<noteq> Some (Dir es)) \<and>
   is_site_valid (Dir [(''DRIAMS-A'', Dir [(''id'', Dir []), (''raw'', Dir [])])]) [] ''DRIAMS-Z''
     = True"
proof -
  have h: "\<forall>es. resolve (Dir [(''DRIAMS-A'', Dir [(''id'', Dir []), (''raw'', Dir [])])])
           ([] @ [''DRIAMS-Z'']) \<noteq> Some (Dir es)"
    by simp
  from is_site_valid_missing_site [OF h] h show ?thesis
    by blast
qed

section \<open>Loading the spectra\<close>





lemma read_spectra_aligned:
  "read_spectra fs files = Inr ss \<Longrightarrow>
   length ss = length files \<and> (\<forall>i < length files. read_spectrum fs (files ! i) = Inr (ss ! i))"
proof (induction files arbitrary: ss)
  case Nil
  then show ?case by simp
next
  case (Cons f files)
  then obtain s ss' where s: "read_spectrum fs f = Inr s" "read_spectra fs files = Inr ss'" "ss = s # ss'"
    by (auto split: sum.splits)
  from Cons.IH [OF s(2)] s(1,3) show ?case
    by (auto simp: nth_Cons split: nat.splits)
qed

text \<open>
  Whatever a successful call returns is the tuple of the spectra and the metadata, with
  one spectrum per code, the spectrum at each position read from the file named by the
  code at that position; and a frame with one \<^verbatim>\<open>code\<close> column has one code per row.
\<close>

lemma load_driams_dataset_aligned:
  assumes "load_driams_dataset fs root site year species antibiotics encoder policy load_raw = Inr v"
  shows "\<exists>spectra metadata codes.
           v = PyTuple spectra metadata \<and>
           load_metadata fs (root @ [site, ''id'', year, year @ ''_clean.csv'']) species antibiotics
             encoder policy = Inr metadata \<and>
           attr_code metadata = Inr codes \<and>
           length spectra = length codes \<and>
           (\<forall>i < length codes.
              read_spectrum fs ((root @ [site, if load_raw then ''raw'' else ''preprocessed'', year])
                                  @ [codes ! i @ ''.txt'']) = Inr (spectra ! i))"
proof -
  let ?path_X = "root @ [site, if load_raw then ''raw'' else ''preprocessed'', year]"
  from assms obtain metadata codes spectra where
    m: "load_metadata fs (root @ [site, ''id'', year, year @ ''_clean.csv'']) species antibiotics
             encoder policy = Inr metadata" and
    c: "attr_code metadata = Inr codes" and
    r: "read_spectra fs (map (\<lambda>code. ?path_X @ [code @ ''.txt'']) codes) = Inr spectra" and
    v: "v = PyTuple spectra metadata"
    unfolding load_driams_dataset_def Let_def
    by (auto split: sum.splits)
  from read_spectra_aligned [OF r] m c v show ?thesis
    by auto
qed

lemma attr_code_rows:
  assumes "distinct (columns m)" and "''code'' \<in> set (columns m)"
    and "\<forall>r \<in> set (rows m). length r = length (columns m)"
    and "attr_code m = Inr codes"
  shows "length codes = length (rows m)"
proof -
  have f: "filter (\<lambda>c. c = ''code'') (columns m) = [''code'']"
    using assms(1,2) by (rule filter_eq_single)
  have "length (concat (map (\<lambda>r. map format_cell (cells_at (columns m) r ''code'')) rs)) = length rs"
    if "set rs \<subseteq> set (rows m)" for rs
    using that
  proof (induction rs)
    case Nil
    then show ?case by simp
  next
    case (Cons r rs)
    then have "length r = length (columns m)" using assms(3) by simp
    from cells_at_single [OF assms(1,2) this] Cons show ?case by simp
  qed
  from this [of "rows m"] assms(4) show ?thesis
    by (auto simp: attr_code_def f)
qed

text \<open>
  C5. The claim is that a successful call returns a \<^verbatim>\<open>DRIAMSDataset\<close>. On the example
  the call succeeds and returns the bare tuple of the one spectrum and the metadata (the
  function ends in \<^verbatim>\<open>return spectra, metadata\<close>), not a dataset instance.
\<close>

theorem load_driams_dataset_returns_tuple:
  "load_driams_dataset example_fs [] ''DRIAMS-A'' ''2015'' ''Sa'' (One ''Cipro'')
     (Some DRIAMSLabelEncoder) ''remove_if_all_missing'' False =
   Inr (PyTuple [[(2000, 7), (2003, 9)]]
          \<lparr>columns = [''code'', ''bruker_organism_best_match'', ''species'', ''Cipro''],
           rows = [[Str ''A1'', Str ''MRSA'', Str ''Sa'', Num 0]]\<rparr>)"
  by (simp add: loader_defs frame_defs encoder_defs example_defs)




section \<open>Construction of the dataset\<close>

text \<open>
  C7. Constructing a \<^verbatim>\<open>DRIAMSDataset\<close> from spectra \<open>X0\<close> and metadata \<open>y0\<close> succeeds
  exactly when the number of spectra equals the number of rows of \<open>y0\<close>, and then it
  holds exactly those two values; when the counts differ it fails with the error of the
  failed assertion, and no dataset is produced.
\<close>

theorem DRIAMSDataset_init_iff:
  "((\<exists>d. DRIAMSDataset_init X0 y0 = Inr d) \<longleftrightarrow> length X0 = length (rows y0)) \<and>
   (length X0 = length (rows y0) \<longrightarrow> DRIAMSDataset_init X0 y0 = Inr \<lparr>X = X0, y = y0\<rparr>) \<and>
   (length X0 \<noteq> length (rows y0) \<longrightarrow> DRIAMSDataset_init X0 y0 = Inl AssertionError)"
  by (simp add: DRIAMSDataset_init_def)

theorem DRIAMSDataset_init_iff_witness:
  "DRIAMSDataset_init [[(2000, 5)]] \<lparr>columns = [''code''], rows = [[Str ''A1'']]\<rparr>
     = Inr \<lparr>X = [[(2000, 5)]], y = \<lparr>columns = [''code''], rows = [[Str ''A1'']]\<rparr>\<rparr> \<and>
   DRIAMSDataset_init [] \<lparr>columns = [''code''], rows = [[Str ''A1'']]\<rparr> = Inl AssertionError"
  using DRIAMSDataset_init_iff [of "[[(2000, 5)]]" "\<lparr>columns = [''code''], rows = [[Str ''A1'']]\<rparr>"]
    DRIAMSDataset_init_iff [of "[]" "\<lparr>columns = [''code''], rows = [[Str ''A1'']]\<rparr>"]
  by simp

section \<open>The multi-task property\<close>

text \<open>
  C9. The claim is that \<^verbatim>\<open>is_multitask\<close> is false for a dataset whose metadata has
  exactly one label column. The code compares the list of label columns with the
  integer 1, so the property is true for every dataset; here for the columns
  \<^verbatim>\<open>code, bruker_organism_best_match, species, Ciprofloxacin\<close>, with the one label
  column \<^verbatim>\<open>Ciprofloxacin\<close>.
\<close>

theorem is_multitask_single_label:
  "label_columns \<lparr>X = [], y = \<lparr>columns = [''code'', ''bruker_organism_best_match'', ''species'',
      ''Ciprofloxacin''], rows = []\<rparr>\<rparr> = [''Ciprofloxacin''] \<and>
   is_multitask \<lparr>X = [], y = \<lparr>columns = [''code'', ''bruker_organism_best_match'', ''species'',
      ''Ciprofloxacin''], rows = []\<rparr>\<rparr> = True"
  by (simp add: is_multitask_def label_columns_def metadata_columns_def)

lemma is_multitask_always: "is_multitask d"
  by (simp add: is_multitask_def)

section \<open>The available antibiotics\<close>

lemma contains_iff: "contains p s \<longleftrightarrow> (\<exists>u v. s = u @ p @ v)"
proof (induction s)
  case Nil
  then show ?case by auto
next
  case (Cons c s)
  show ?case
  proof
    assume "contains p (c # s)"
    then consider "take (length p) (c # s) = p" | "contains p s" by auto
    then show "\<exists>u v. c # s = u @ p @ v"
    proof cases
      case 1
      then have "c # s = [] @ p @ drop (length p) (c # s)"
        by (metis append_Nil append_take_drop_id)
      then show ?thesis by blast
    next
      case 2
      then obtain u v where "s = u @ p @ v" using Cons.IH by auto
      then have "c # s = (c # u) @ p @ v" by simp
      then show ?thesis by blast
    qed
  next
    assume "\<exists>u v. c # s = u @ p @ v"
    then obtain u v where uv: "c # s = u @ p @ v" by auto
    show "contains p (c # s)"
    proof (cases u)
      case Nil
      then have "take (length p) (c # s) = p" using uv by (metis append_Nil append_eq_conv_conj)
      then show ?thesis by simp
    next
      case (Cons a u')
      then have "s = u' @ p @ v" using uv by simp
      then have "contains p s" using Cons.IH by auto
      then show ?thesis by simp
    qed
  qed
qed

lemma upper_columns_ok:
  "[] \<notin> set cs \<Longrightarrow>
   upper_columns isupper cs = Inr (filter (\<lambda>c. isupper (first_char c)) cs)"
  by (induction cs) (auto split: list.splits)

text \<open>
  C8. Whatever the library's table of upper-case characters is: when the identifier table
  of the site and year reads as a frame (its labels are not empty, as pandas names a
  column without header), the query returns a sorted list that holds exactly the labels
  of the frame whose first character is upper-case and in which \<^verbatim>\<open>Unnamed\<close> does not
  occur, each as often as the frame has it.
\<close>

theorem get_available_antibiotics_sorted_filter:
  assumes "pd_read_csv fs (root @ [site, ''id'', year, year @ ''_clean.csv'']) = Inr df"
    and "[] \<notin> set (columns df)"
  shows "\<exists>r. get_available_antibiotics isupper fs root site year = Inr r \<and> sorted r \<and>
           mset r = mset (filter (\<lambda>c. isupper (first_char c) \<and>
                                    \<not> (\<exists>u v. c = u @ ''Unnamed'' @ v)) (columns df))"
proof -
  let ?P = "\<lambda>c. isupper (first_char c) \<and> \<not> (\<exists>u v. c = u @ ''Unnamed'' @ v)"
  let ?r = "sort (filter (\<lambda>a. \<not> contains ''Unnamed'' a)
                   (filter (\<lambda>c. isupper (first_char c)) (columns df)))"
  have r: "get_available_antibiotics isupper fs root site year = Inr ?r"
    using assms by (simp add: get_available_antibiotics_def upper_columns_ok)
  have "filter (\<lambda>a. \<not> contains ''Unnamed'' a) (filter (\<lambda>c. isupper (first_char c)) (columns df))
        = filter ?P (columns df)"
    by (simp only: filter_filter contains_iff)
  then have "mset ?r = mset (filter ?P (columns df))" by simp
  moreover have "sorted ?r" by simp
  ultimately show ?thesis using r by blast
qed

text \<open>
  The table with the columns \<^verbatim>\<open>code, bruker_organism_best_match, species, Ciprofloxacin,
  Unnamed: 7\<close> gives \<^verbatim>\<open>['Ciprofloxacin']\<close>; and a label beginning with an upper-case
  letter outside ASCII is kept and sorted after the ASCII ones.
\<close>

theorem get_available_antibiotics_sorted_filter_witness:
  "pd_read_csv antibiotics_fs ([] @ [''DRIAMS-A'', ''id'', ''2015'', ''2015'' @ ''_clean.csv''])
     = Inr antibiotics_table \<and>
   [] \<notin> set (columns antibiotics_table) \<and>
   get_available_antibiotics isupper_examples antibiotics_fs [] ''DRIAMS-A'' ''2015''
     = Inr [''Ciprofloxacin''] \<and>
   pd_read_csv antibiotics_fs ([] @ [''DRIAMS-A'', ''id'', ''2016'', ''2016'' @ ''_clean.csv''])
     = Inr umlaut_table \<and>
   [] \<notin> set (columns umlaut_table) \<and>
   get_available_antibiotics isupper_examples antibiotics_fs [] ''DRIAMS-A'' ''2016''
     = Inr [''Cipro'', [CHR 0xC3, CHR 0x84] @ ''ther'']"
proof -
  have r: "pd_read_csv antibiotics_fs ([] @ [''DRIAMS-A'', ''id'', ''2015'', ''2015'' @ ''_clean.csv''])
     = Inr antibiotics_table"
    by (simp add: pd_read_csv_def antibiotics_fs_def)
  have n: "[] \<notin> set (columns antibiotics_table)"
    by (simp add: antibiotics_table_def)
  have r': "pd_read_csv antibiotics_fs ([] @ [''DRIAMS-A'', ''id'', ''2016'', ''2016'' @ ''_clean.csv''])
     = Inr umlaut_table"
    by (simp add: pd_read_csv_def antibiotics_fs_def)
  have n': "[] \<notin> set (columns umlaut_table)"
    by (simp add: umlaut_table_def)
  have a: "get_available_antibiotics isupper_examples antibiotics_fs [] ''DRIAMS-A'' ''2015''
     = Inr [''Ciprofloxacin'']"
    using get_available_antibiotics_sorted_filter [OF r n, of isupper_examples] r
    by (simp add: get_available_antibiotics_def antibiotics_table_def isupper_examples_def
        first_char_def utf8_width_def)
  have b: "get_available_antibiotics isupper_examples antibiotics_fs [] ''DRIAMS-A'' ''2016''
     = Inr [''Cipro'', [CHR 0xC3, CHR 0x84] @ ''ther'']"
    using get_available_antibiotics_sorted_filter [OF r' n', of isupper_examples] r'
    by (simp add: get_available_antibiotics_def umlaut_table_def isupper_examples_def
        first_char_def utf8_width_def)
  from r n a r' n' b show ?thesis by (simp only: simp_thms)
qed

end
